theory Spec2Isabelle
  imports Main "HOL-Library.Word"
begin

section \<open>JavaScript values used by the scrape payload\<close>

text \<open>
  A JavaScript string is a sequence of UTF-16 code units; \<open>length\<close>, \<open>substring\<close> and
  \<open>join\<close> count and cut code units. A literal of the source is written \<open>js ''...''\<close>.
\<close>

type_synonym code_unit = "16 word"

type_synonym jsstring = "code_unit list"

definition js :: "string \<Rightarrow> jsstring" where
  "js s = map of_char s"

text \<open>
  \<open>i.toString()\<close> for a non-negative integer: its decimal digits.
\<close>

fun toString :: "nat \<Rightarrow> jsstring" where
  "toString n =
     (if n < 10 then [of_nat (48 + n)]
      else toString (n div 10) @ [of_nat (48 + n mod 10)])"

text \<open>
  \<open>Array.prototype.join\<close> on an array of strings.
\<close>

fun join :: "jsstring \<Rightarrow> jsstring list \<Rightarrow> jsstring" where
  "join sep [] = []"
| "join sep [x] = x"
| "join sep (x # y # ys) = x @ sep @ join sep (y # ys)"

text \<open>
  \<open>s.substring(0, n)\<close> for \<open>0 \<le> n\<close>.
\<close>

definition substring0 :: "jsstring \<Rightarrow> nat \<Rightarrow> jsstring" where
  "substring0 s n = take n s"

text \<open>
  The body of an HTTP response is typed \<open>any\<close> in the source (\<open>summaryRes: any\<close>):
  whatever the HTTP client parsed. Numbers are kept as integers, no property below reads
  their value.
\<close>

datatype jsvalue =
    JUndefined
  | JNull
  | JBool bool
  | JNumber int
  | JString jsstring
  | JArray "jsvalue list"
  | JObject "(jsstring \<times> jsvalue) list"


datatype js_error = Thrown

section \<open>Text extraction (payload.ts, lines 40 to 56)\<close>

text \<open>
  The flow of \<open>Waterfall/src/payload.ts\<close> is the block of lines 10 to 111, inside the
  guard \<open>typeof artoo !== 'undefined'\<close> of line 8, which the source keeps disabled inside a
  comment; the definitions below embed that block as it is written.

  \<open>artoo.scrape(selector, 'text')\<close> returns the texts of the elements the selector
  matches, or throws: the page under the scraper is a function from selectors.
\<close>

type_synonym artoo = "jsstring \<Rightarrow> js_error + jsstring list"

definition NN :: nat where
  "NN = 1024 * 100"

text \<open>
  Lines 44 to 46: \<open>for (var i = 0; i < 6; i++) scraped = scraped = artoo.scrape('h' + i.toString(), 'text')\<close>.
\<close>

function heading_loop :: "artoo \<Rightarrow> nat \<Rightarrow> jsstring list \<Rightarrow> js_error + jsstring list" where
  "heading_loop scrape i scraped =
     (if i < 6 then
        (case scrape (js ''h'' @ toString i) of
           Inl e \<Rightarrow> Inl e
         | Inr r \<Rightarrow> heading_loop scrape (i + 1) r)
      else Inr scraped)"
  by pat_completeness auto
termination
  by (relation "measure (\<lambda>(scrape, i, scraped). 6 - i)") auto

text \<open>
  Lines 42 to 47: the scraped fragments, paragraphs first.
\<close>

definition scrape_fragments :: "artoo \<Rightarrow> js_error + jsstring list" where
  "scrape_fragments scrape =
     (case scrape (js ''p'') of
        Inl e \<Rightarrow> Inl e
      | Inr scraped \<Rightarrow>
          if length scraped = 0 then heading_loop scrape 0 scraped else Inr scraped)"

text \<open>
  Lines 49 to 52: join and cut.
\<close>

definition join_and_truncate :: "jsstring list \<Rightarrow> jsstring" where
  "join_and_truncate scraped =
     (let allText = join (js '' \<newline>'') scraped
      in if length allText > NN then substring0 allText NN else allText)"

text \<open>
  The body of the \<open>try\<close> (lines 41 to 52), then the \<open>try\<close>/\<open>catch\<close> around it
  (lines 40 to 56): the value of \<open>allText\<close> after the statement.
\<close>

definition try_body :: "artoo \<Rightarrow> js_error + jsstring" where
  "try_body scrape =
     (case scrape_fragments scrape of
        Inl e \<Rightarrow> Inl e
      | Inr scraped \<Rightarrow> Inr (join_and_truncate scraped))"

definition extract_text :: "artoo \<Rightarrow> jsstring" where
  "extract_text scrape =
     (case try_body scrape of
        Inl e \<Rightarrow> js ''''
      | Inr allText \<Rightarrow> allText)"

section \<open>The flow as an event-driven machine (payload.ts, lines 11 to 110)\<close>

text \<open>
  A message on the extension-host channel, \<open>chrome.runtime.sendMessage({type: ..., text: ...})\<close>.
\<close>

record message =
  msg_type :: jsstring
  msg_text :: jsvalue

text \<open>
  What a callback does to the outside: a message to the host, an \<open>axios.post\<close> to a URL
  with the \<open>text\<close> of its body, a \<open>console.error\<close>.
\<close>

datatype effect =
    SendMessage message
  | AxiosPost jsstring jsvalue
  | ConsoleError

text \<open>
  How the promise of an \<open>axios.post\<close> settles: it rejects, or it resolves to a response
  with a \<open>status\<close> and a \<open>data\<close>.
\<close>

datatype http_outcome =
    Rejects
  | Resolves int jsvalue

text \<open>
  The variables of lines 12 to 16, and what the runtime holds for the script: the interval
  registered at line 18 (until \<open>clearInterval\<close>), the timeout registered at line 38
  (until it fires), and the two requests while their promises are unsettled.
\<close>

record payload =
  haveSummary :: bool
  baseSummaryText :: jsstring
  haveClassification :: bool
  baseClassificationText :: jsstring
  allText :: jsstring
  intervalLive :: bool
  timeoutPending :: bool
  summarizeInFlight :: bool
  classifyInFlight :: bool

definition start :: payload where
  "start =
     \<lparr>haveSummary = False,
      baseSummaryText = js ''Summarising ...'',
      haveClassification = False,
      baseClassificationText = js ''Classifying ...'',
      allText = js '''',
      intervalLive = True,
      timeoutPending = True,
      summarizeInFlight = False,
      classifyInFlight = False\<rparr>"

definition summarizeQuery :: jsstring where
  "summarizeQuery =
     js ''https://braidapi.azurewebsites.net/api/summarize?session=49b65194-26e1-4041-ab11-4078229f478a''"

definition classifyQuery :: jsstring where
  "classifyQuery =
     js ''https://braidapi.azurewebsites.net/api/classify?session=49b65194-26e1-4041-ab11-4078229f478a''"

definition summaryFallback :: jsstring where
  "summaryFallback = js ''Sorry, could not fetch a summary from the Waterfall server.''"

definition classificationFallback :: jsstring where
  "classificationFallback =
     js ''Sorry, could not fetch a classification from the Waterfall server.''"

definition summaryMessage :: "jsvalue \<Rightarrow> effect" where
  "summaryMessage t = SendMessage \<lparr>msg_type = js ''Summary'', msg_text = t\<rparr>"

definition classificationMessage :: "jsvalue \<Rightarrow> effect" where
  "classificationMessage t = SendMessage \<lparr>msg_type = js ''Classification'', msg_text = t\<rparr>"

text \<open>
  Lines 18 to 36, the callback of \<open>setInterval\<close>.
\<close>

definition interval_callback :: "payload \<Rightarrow> effect list \<times> payload" where
  "interval_callback s =
     (if \<not> haveSummary s \<or> \<not> haveClassification s then
        let (out1, s1) =
              (if \<not> haveSummary s then
                 let s' = s\<lparr>baseSummaryText := baseSummaryText s @ js ''.''\<rparr>
                 in ([summaryMessage (JString (baseSummaryText s'))], s')
               else ([], s));
            (out2, s2) =
              (if \<not> haveClassification s1 then
                 let s' = s1\<lparr>baseClassificationText := baseClassificationText s1 @ js ''.''\<rparr>
                 in ([classificationMessage (JString (baseClassificationText s'))], s')
               else ([], s1))
        in (out1 @ out2, s2)
      else ([], s\<lparr>intervalLive := False\<rparr>))"

text \<open>
  Lines 38 to 67, the callback of \<open>setTimeout\<close> up to the call of \<open>axios.post\<close>.
\<close>

definition timeout_callback :: "artoo \<Rightarrow> payload \<Rightarrow> effect list \<times> payload" where
  "timeout_callback scrape s =
     (let s1 = s\<lparr>allText := extract_text scrape\<rparr>
      in ([AxiosPost summarizeQuery (JString (allText s1))], s1\<lparr>summarizeInFlight := True\<rparr>))"

text \<open>
  Lines 80 to 88 and 89 to 93: \<open>then\<close> and \<open>catch\<close> of the classify request.
\<close>

definition classify_then :: "int \<Rightarrow> jsvalue \<Rightarrow> payload \<Rightarrow> effect list \<times> payload" where
  "classify_then status data s =
     (let s1 = s\<lparr>haveClassification := True\<rparr>
      in if status = 200 then ([classificationMessage data], s1)
         else ([classificationMessage (JString classificationFallback)], s1))"

definition classify_catch :: "payload \<Rightarrow> effect list \<times> payload" where
  "classify_catch s =
     (let s1 = s\<lparr>haveClassification := True\<rparr>
      in ([ConsoleError, classificationMessage (JString classificationFallback)], s1))"

text \<open>
  Lines 68 to 101 and 102 to 108: \<open>then\<close> and \<open>catch\<close> of the summarize request.
\<close>

definition summarize_then :: "int \<Rightarrow> jsvalue \<Rightarrow> payload \<Rightarrow> effect list \<times> payload" where
  "summarize_then status data s =
     (let s1 = s\<lparr>haveSummary := True\<rparr>
      in if status = 200 then
           ([summaryMessage data, AxiosPost classifyQuery data], s1\<lparr>classifyInFlight := True\<rparr>)
         else
           ([summaryMessage (JString summaryFallback),
             classificationMessage (JString classificationFallback)],
            s1\<lparr>haveSummary := True, haveClassification := True\<rparr>))"

definition summarize_catch :: "payload \<Rightarrow> effect list \<times> payload" where
  "summarize_catch s =
     (let s1 = s\<lparr>haveSummary := True, haveClassification := True\<rparr>
      in ([ConsoleError,
           summaryMessage (JString summaryFallback),
           classificationMessage (JString classificationFallback)], s1))"

text \<open>
  The event loop runs one callback at a time. An event that has nothing registered for it
  (a cleared interval, a timeout that has fired, a request that is not in flight) runs no
  callback. The order of the events is left to the schedule.
\<close>

datatype event =
    IntervalFires
  | TimeoutFires
  | SummarizeSettles http_outcome
  | ClassifySettles http_outcome

fun step :: "artoo \<Rightarrow> event \<Rightarrow> payload \<Rightarrow> effect list \<times> payload" where
  "step scrape IntervalFires s =
     (if intervalLive s then interval_callback s else ([], s))"
| "step scrape TimeoutFires s =
     (if timeoutPending s then timeout_callback scrape (s\<lparr>timeoutPending := False\<rparr>)
      else ([], s))"
| "step scrape (SummarizeSettles Rejects) s =
     (if summarizeInFlight s then summarize_catch (s\<lparr>summarizeInFlight := False\<rparr>)
      else ([], s))"
| "step scrape (SummarizeSettles (Resolves status data)) s =
     (if summarizeInFlight s then summarize_then status data (s\<lparr>summarizeInFlight := False\<rparr>)
      else ([], s))"
| "step scrape (ClassifySettles Rejects) s =
     (if classifyInFlight s then classify_catch (s\<lparr>classifyInFlight := False\<rparr>)
      else ([], s))"
| "step scrape (ClassifySettles (Resolves status data)) s =
     (if classifyInFlight s then classify_then status data (s\<lparr>classifyInFlight := False\<rparr>)
      else ([], s))"

fun run :: "artoo \<Rightarrow> event list \<Rightarrow> payload \<Rightarrow> effect list \<times> payload" where
  "run scrape [] s = ([], s)"
| "run scrape (ev # evs) s =
     (let (out1, s1) = step scrape ev s;
          (out2, s2) = run scrape evs s1
      in (out1 @ out2, s2))"

text \<open>
  The messages among the effects, in order.
\<close>

fun sent :: "effect list \<Rightarrow> message list" where
  "sent [] = []"
| "sent (SendMessage m # es) = m # sent es"
| "sent (e # es) = sent es"

text \<open>
  A call leg has failed when its promise rejects or resolves with a status other than 200.
\<close>

fun failed :: "http_outcome \<Rightarrow> bool" where
  "failed Rejects = True"
| "failed (Resolves status data) = (status \<noteq> 200)"

text \<open>
  A page without paragraphs whose only headings are one \<open>h1\<close> and one \<open>h6\<close>.
\<close>

definition headings_page :: artoo where
  "headings_page sel =
     (if sel = js ''h1'' then Inr [js ''Title'']
      else if sel = js ''h6'' then Inr [js ''Small print'']
      else Inr [])"

text \<open>
  A page with two paragraphs, a scraper that throws at every call, and a response body
  that is a JSON object.
\<close>

definition paragraph_page :: artoo where
  "paragraph_page sel = (if sel = js ''p'' then Inr [js ''Hello'', js ''world''] else Inr [])"

definition throwing_page :: artoo where
  "throwing_page sel = Inl Thrown"

definition object_body :: jsvalue where
  "object_body = JObject [(js ''summary'', JString (js ''A page about words.''))]"

text \<open>
  What the flags and the runtime's registrations say about each other in every state the
  flow reaches: a request in flight has its leg unresolved, the classify request exists
  only once the summary is there, the interval is cleared only when both legs are
  resolved, and a leg whose request has settled has its flag set.
\<close>

definition consistent :: "payload \<Rightarrow> bool" where
  "consistent s \<longleftrightarrow>
     (summarizeInFlight s \<longrightarrow> \<not> timeoutPending s \<and> \<not> haveSummary s \<and> \<not> classifyInFlight s) \<and>
     (classifyInFlight s \<longrightarrow> haveSummary s \<and> \<not> haveClassification s) \<and>
     (haveSummary s \<longrightarrow> \<not> timeoutPending s) \<and>
     (haveClassification s \<longrightarrow> haveSummary s) \<and>
     (\<not> intervalLive s \<longrightarrow> haveSummary s \<and> haveClassification s) \<and>
     (\<not> timeoutPending s \<and> \<not> summarizeInFlight s \<longrightarrow> haveSummary s) \<and>
     (haveSummary s \<and> \<not> classifyInFlight s \<longrightarrow> haveClassification s)"

section \<open>Properties of the text extraction\<close>

declare heading_loop.simps [simp del]
declare toString.simps [simp del]

lemma js_Nil: "js [] = []"
  by (simp add: js_def)

lemma join_and_truncate_le: "length (join_and_truncate scraped) \<le> NN"
  by (simp add: join_and_truncate_def substring0_def Let_def)

lemma extract_text_le: "length (extract_text scrape) \<le> NN"
  by (simp add: extract_text_def try_body_def js_def join_and_truncate_le split: sum.splits)

text \<open>
  C4: whatever the page, the text left by the concatenate-and-truncate step has at most
  \<open>NN\<close> code units, and so has the text posted to the summarize endpoint.
\<close>

theorem C4_truncation_within_cap:
  "length (join_and_truncate scraped) \<le> NN \<and>
   length (extract_text scrape) \<le> NN \<and>
   (\<exists>t. fst (timeout_callback scrape s) = [AxiosPost summarizeQuery (JString t)] \<and> length t \<le> NN)"
  by (simp add: join_and_truncate_le extract_text_le timeout_callback_def Let_def)

lemma selectors: "js ''h'' @ toString 0 = js ''h0''" "js ''h'' @ toString (Suc 0) = js ''h1''"
  "js ''h'' @ toString 2 = js ''h2''" "js ''h'' @ toString 3 = js ''h3''"
  "js ''h'' @ toString 4 = js ''h4''" "js ''h'' @ toString 5 = js ''h5''"
  by (simp_all add: js_def toString.simps)

lemma heading_loop_step:
  "i < 6 \<Longrightarrow> scrape (js ''h'' @ toString i) = Inr r \<Longrightarrow>
   heading_loop scrape i scraped = heading_loop scrape (i + 1) r"
  by (subst heading_loop.simps) simp

lemma heading_loop_keeps_last:
  assumes "scrape (js ''h0'') = Inr r0" "scrape (js ''h1'') = Inr r1"
    "scrape (js ''h2'') = Inr r2" "scrape (js ''h3'') = Inr r3"
    "scrape (js ''h4'') = Inr r4" "scrape (js ''h5'') = Inr r5"
  shows "heading_loop scrape 0 scraped = Inr r5"
proof -
  have "heading_loop scrape 0 scraped = heading_loop scrape 1 r0"
    using heading_loop_step [of 0 scrape r0 scraped] assms by (simp add: selectors)
  also have "\<dots> = heading_loop scrape 2 r1"
    using heading_loop_step [of 1 scrape r1 r0] assms by (simp add: selectors numeral_2_eq_2)
  also have "\<dots> = heading_loop scrape 3 r2"
    using heading_loop_step [of 2 scrape r2 r1] assms by (simp add: selectors)
  also have "\<dots> = heading_loop scrape 4 r3"
    using heading_loop_step [of 3 scrape r3 r2] assms by (simp add: selectors)
  also have "\<dots> = heading_loop scrape 5 r4"
    using heading_loop_step [of 4 scrape r4 r3] assms by (simp add: selectors)
  also have "\<dots> = heading_loop scrape 6 r5"
    using heading_loop_step [of 5 scrape r5 r4] assms by (simp add: selectors)
  also have "\<dots> = Inr r5"
    by (subst heading_loop.simps) simp
  finally show ?thesis .
qed

lemma headings_page_simps:
  "headings_page (js ''p'') = Inr []" "headings_page (js ''h0'') = Inr []"
  "headings_page (js ''h1'') = Inr [js ''Title'']" "headings_page (js ''h2'') = Inr []"
  "headings_page (js ''h3'') = Inr []" "headings_page (js ''h4'') = Inr []"
  "headings_page (js ''h5'') = Inr []"
  by (simp_all add: headings_page_def js_def)

text \<open>
  C5: the fallback of lines 43 to 47 asks for \<open>h0\<close> to \<open>h5\<close> and keeps the last answer
  only. On a page with no paragraph, an \<open>h1\<close> and an \<open>h6\<close>, no fragment is left and the
  text is empty: neither heading is in it.
\<close>

theorem C5_heading_fallback_loses_headings:
  "headings_page (js ''p'') = Inr [] \<and>
   headings_page (js ''h1'') = Inr [js ''Title''] \<and>
   scrape_fragments headings_page = Inr [] \<and>
   extract_text headings_page = js ''''"
  by (simp add: headings_page_simps scrape_fragments_def heading_loop_keeps_last extract_text_def
      try_body_def join_and_truncate_def Let_def js_Nil)

text \<open>
  C10: when the extraction throws, the \<open>catch\<close> leaves the empty string in \<open>allText\<close>
  and the timeout callback still posts it to the summarize endpoint; the callback ends
  normally with the request in flight.
\<close>

theorem C10_scrape_failure_still_posts:
  "try_body scrape = Inl e \<Longrightarrow> timeoutPending s \<Longrightarrow>
   step scrape TimeoutFires s =
     ([AxiosPost summarizeQuery (JString (js ''''))],
      s\<lparr>timeoutPending := False, allText := js '''', summarizeInFlight := True\<rparr>)"
  by (simp add: timeout_callback_def extract_text_def Let_def)

text \<open>
  The hypotheses hold for a scraper that throws at its first call, from the initial state.
\<close>

theorem C10_witness:
  "try_body throwing_page = Inl Thrown \<and> timeoutPending start \<and>
   step throwing_page TimeoutFires start =
     ([AxiosPost summarizeQuery (JString (js ''''))],
      start\<lparr>timeoutPending := False, allText := js '''', summarizeInFlight := True\<rparr>)"
proof -
  have a: "try_body throwing_page = Inl Thrown"
    by (simp add: try_body_def scrape_fragments_def throwing_page_def)
  have b: "timeoutPending start" by (simp add: start_def)
  show ?thesis using a b C10_scrape_failure_still_posts [OF a b] by simp
qed

section \<open>Properties of the flow\<close>

declare run.simps(2) [simp del]

lemma run_Cons [simp]:
  "run scrape (ev # evs) s =
     (fst (step scrape ev s) @ fst (run scrape evs (snd (step scrape ev s))),
      snd (run scrape evs (snd (step scrape ev s))))"
  by (simp add: run.simps(2) split_beta Let_def)


lemma queries_differ: "summarizeQuery \<noteq> classifyQuery"
  by (simp add: summarizeQuery_def classifyQuery_def js_def)

lemma step_timeout_start:
  "step scrape TimeoutFires start =
     ([AxiosPost summarizeQuery (JString (extract_text scrape))],
      start\<lparr>timeoutPending := False, allText := extract_text scrape,
        summarizeInFlight := True\<rparr>)"
  by (simp add: start_def timeout_callback_def Let_def)

lemma consistent_start: "consistent start"
  by (simp add: consistent_def start_def)

text \<open>
  The flags and registrations after each kind of event.
\<close>

lemma interval_fields:
  "haveSummary (snd (step scrape IntervalFires s)) = haveSummary s"
  "haveClassification (snd (step scrape IntervalFires s)) = haveClassification s"
  "timeoutPending (snd (step scrape IntervalFires s)) = timeoutPending s"
  "summarizeInFlight (snd (step scrape IntervalFires s)) = summarizeInFlight s"
  "classifyInFlight (snd (step scrape IntervalFires s)) = classifyInFlight s"
  "intervalLive (snd (step scrape IntervalFires s)) =
     (intervalLive s \<and> (\<not> haveSummary s \<or> \<not> haveClassification s))"
  by (simp_all add: interval_callback_def Let_def split_beta)

lemma timeout_fields:
  "haveSummary (snd (step scrape TimeoutFires s)) = haveSummary s"
  "haveClassification (snd (step scrape TimeoutFires s)) = haveClassification s"
  "timeoutPending (snd (step scrape TimeoutFires s)) = False"
  "summarizeInFlight (snd (step scrape TimeoutFires s)) =
     (timeoutPending s \<or> summarizeInFlight s)"
  "classifyInFlight (snd (step scrape TimeoutFires s)) = classifyInFlight s"
  "intervalLive (snd (step scrape TimeoutFires s)) = intervalLive s"
  by (simp_all add: timeout_callback_def Let_def)

lemma summarize_fields:
  "haveSummary (snd (step scrape (SummarizeSettles out) s)) =
     (haveSummary s \<or> summarizeInFlight s)"
  "haveClassification (snd (step scrape (SummarizeSettles out) s)) =
     (haveClassification s \<or> summarizeInFlight s \<and> failed out)"
  "timeoutPending (snd (step scrape (SummarizeSettles out) s)) = timeoutPending s"
  "summarizeInFlight (snd (step scrape (SummarizeSettles out) s)) = False"
  "classifyInFlight (snd (step scrape (SummarizeSettles out) s)) =
     (classifyInFlight s \<or> summarizeInFlight s \<and> \<not> failed out)"
  "intervalLive (snd (step scrape (SummarizeSettles out) s)) = intervalLive s"
  by (cases out; simp add: summarize_catch_def summarize_then_def Let_def)+

lemma classify_fields:
  "haveSummary (snd (step scrape (ClassifySettles out) s)) = haveSummary s"
  "haveClassification (snd (step scrape (ClassifySettles out) s)) =
     (haveClassification s \<or> classifyInFlight s)"
  "timeoutPending (snd (step scrape (ClassifySettles out) s)) = timeoutPending s"
  "summarizeInFlight (snd (step scrape (ClassifySettles out) s)) = summarizeInFlight s"
  "classifyInFlight (snd (step scrape (ClassifySettles out) s)) = False"
  "intervalLive (snd (step scrape (ClassifySettles out) s)) = intervalLive s"
  by (cases out; simp add: classify_catch_def classify_then_def Let_def)+

lemma consistent_step: "consistent s \<Longrightarrow> consistent (snd (step scrape ev s))"
proof (cases ev)
  case IntervalFires
  assume "consistent s"
  then show ?thesis
    unfolding IntervalFires consistent_def interval_fields by blast
next
  case TimeoutFires
  assume "consistent s"
  then show ?thesis
    unfolding TimeoutFires consistent_def timeout_fields by blast
next
  case (SummarizeSettles out)
  assume "consistent s"
  then show ?thesis
    unfolding SummarizeSettles consistent_def summarize_fields by blast
next
  case (ClassifySettles out)
  assume "consistent s"
  then show ?thesis
    unfolding ClassifySettles consistent_def classify_fields by blast
qed

lemma consistent_run: "consistent s \<Longrightarrow> consistent (snd (run scrape evs s))"
proof (induction evs arbitrary: s)
  case Nil
  then show ?case by simp
next
  case (Cons ev evs)
  from Cons.prems have "consistent (snd (step scrape ev s))"
    by (rule consistent_step)
  then have "consistent (snd (run scrape evs (snd (step scrape ev s))))"
    by (rule Cons.IH)
  then show ?case by simp
qed

text \<open>
  C6: a summarize leg that fails relays both fallback strings and ends both legs; a classify
  leg that fails relays the classification fallback. Every handler is a total function of
  the outcome, a rejection included: the outcome is consumed by the \<open>catch\<close>.
\<close>

theorem C6_failures_relay_fallbacks:
  "(failed out \<and> summarizeInFlight s \<longrightarrow>
      sent (fst (step scrape (SummarizeSettles out) s)) =
        [\<lparr>msg_type = js ''Summary'', msg_text = JString summaryFallback\<rparr>,
         \<lparr>msg_type = js ''Classification'', msg_text = JString classificationFallback\<rparr>] \<and>
      haveSummary (snd (step scrape (SummarizeSettles out) s)) \<and>
      haveClassification (snd (step scrape (SummarizeSettles out) s))) \<and>
   (failed out' \<and> classifyInFlight s' \<longrightarrow>
      sent (fst (step scrape (ClassifySettles out') s')) =
        [\<lparr>msg_type = js ''Classification'', msg_text = JString classificationFallback\<rparr>] \<and>
      haveClassification (snd (step scrape (ClassifySettles out') s')))"
  by (cases out; cases out')
    (simp_all add: summarize_catch_def summarize_then_def classify_catch_def classify_then_def
      summaryMessage_def classificationMessage_def Let_def)

theorem C6_witness:
  "failed Rejects \<and> summarizeInFlight (snd (step paragraph_page TimeoutFires start)) \<and>
   sent (fst (step paragraph_page (SummarizeSettles Rejects)
         (snd (step paragraph_page TimeoutFires start)))) =
     [\<lparr>msg_type = js ''Summary'', msg_text = JString summaryFallback\<rparr>,
      \<lparr>msg_type = js ''Classification'', msg_text = JString classificationFallback\<rparr>] \<and>
   failed (Resolves 500 JNull) \<and>
   classifyInFlight (snd (run paragraph_page
       [TimeoutFires, SummarizeSettles (Resolves 200 object_body)] start)) \<and>
   sent (fst (step paragraph_page (ClassifySettles (Resolves 500 JNull))
         (snd (run paragraph_page
            [TimeoutFires, SummarizeSettles (Resolves 200 object_body)] start)))) =
     [\<lparr>msg_type = js ''Classification'', msg_text = JString classificationFallback\<rparr>]"
proof -
  have a: "summarizeInFlight (snd (step paragraph_page TimeoutFires start))"
    by (simp add: step_timeout_start del: step.simps(2))
  have b: "classifyInFlight (snd (run paragraph_page
       [TimeoutFires, SummarizeSettles (Resolves 200 object_body)] start))"
    by (simp add: step_timeout_start summarize_then_def Let_def del: step.simps(2))
  show ?thesis
    using a b C6_failures_relay_fallbacks [of Rejects "snd (step paragraph_page TimeoutFires start)"
        paragraph_page "Resolves 500 JNull"
        "snd (run paragraph_page [TimeoutFires, SummarizeSettles (Resolves 200 object_body)] start)"]
    by simp
qed

lemma step_classify_post:
  "AxiosPost classifyQuery x \<in> set (fst (step scrape ev s)) \<Longrightarrow>
   ev = SummarizeSettles (Resolves 200 x) \<and> summarizeInFlight s \<and>
   \<not> summarizeInFlight (snd (step scrape ev s))"
  using queries_differ
  by (cases "(scrape, ev, s)" rule: step.cases)
    (auto simp: interval_callback_def timeout_callback_def summarize_catch_def summarize_then_def
      classify_catch_def classify_then_def summaryMessage_def classificationMessage_def Let_def
      split: if_splits)

lemma never_both_in_flight:
  "\<not> (summarizeInFlight (snd (run scrape evs start)) \<and>
      classifyInFlight (snd (run scrape evs start)))"
  using consistent_run [OF consistent_start, of scrape evs] unfolding consistent_def by blast

text \<open>
  C7: a step that posts to the classify endpoint is the step in which the summarize
  request, in flight until then, resolves with status 200, and the text it posts is the
  data of that response; in no state a schedule reaches from the start are the two requests
  in flight together.
\<close>

theorem C7_classify_follows_summarize:
  "(AxiosPost classifyQuery x \<in> set (fst (step scrape ev s)) \<longrightarrow>
      ev = SummarizeSettles (Resolves 200 x) \<and> summarizeInFlight s \<and>
      \<not> summarizeInFlight (snd (step scrape ev s))) \<and>
   \<not> (summarizeInFlight (snd (run scrape evs start)) \<and>
      classifyInFlight (snd (run scrape evs start)))"
  using step_classify_post [of x scrape ev s] never_both_in_flight [of scrape evs] by blast

theorem C7_witness:
  "AxiosPost classifyQuery object_body \<in>
     set (fst (step paragraph_page (SummarizeSettles (Resolves 200 object_body))
       (snd (step paragraph_page TimeoutFires start)))) \<and>
   summarizeInFlight (snd (step paragraph_page TimeoutFires start)) \<and>
   \<not> summarizeInFlight (snd (step paragraph_page (SummarizeSettles (Resolves 200 object_body))
       (snd (step paragraph_page TimeoutFires start)))) \<and>
   \<not> (summarizeInFlight (snd (run paragraph_page
          [TimeoutFires, SummarizeSettles (Resolves 200 object_body)] start)) \<and>
      classifyInFlight (snd (run paragraph_page
          [TimeoutFires, SummarizeSettles (Resolves 200 object_body)] start)))"
proof -
  have post: "AxiosPost classifyQuery object_body \<in>
     set (fst (step paragraph_page (SummarizeSettles (Resolves 200 object_body))
       (snd (step paragraph_page TimeoutFires start))))"
    by (simp add: step_timeout_start summarize_then_def Let_def del: step.simps(2))
  show ?thesis
    using post C7_classify_follows_summarize [of object_body paragraph_page
        "SummarizeSettles (Resolves 200 object_body)" "snd (step paragraph_page TimeoutFires start)"
        "[TimeoutFires, SummarizeSettles (Resolves 200 object_body)]"]
    by (simp add: step_timeout_start del: step.simps(2))
qed

lemma interval_callback_unresolved:
  "\<not> haveSummary s \<or> \<not> haveClassification s \<Longrightarrow>
   interval_callback s =
     ((if haveSummary s then [] else [summaryMessage (JString (baseSummaryText s @ js ''.''))]) @
      (if haveClassification s then []
       else [classificationMessage (JString (baseClassificationText s @ js ''.''))]),
      s\<lparr>baseSummaryText :=
          (if haveSummary s then baseSummaryText s else baseSummaryText s @ js ''.''),
        baseClassificationText :=
          (if haveClassification s then baseClassificationText s
           else baseClassificationText s @ js ''.'')\<rparr>)"
  by (auto simp: interval_callback_def Let_def)

lemma quiet_state:
  assumes "consistent s" "haveSummary s" "haveClassification s"
  shows "\<not> timeoutPending s" "\<not> summarizeInFlight s" "\<not> classifyInFlight s"
  using assms unfolding consistent_def by blast+

lemma quiet_step:
  assumes "consistent s" "haveSummary s" "haveClassification s"
  shows "fst (step scrape ev s) = []"
    and "haveSummary (snd (step scrape ev s))"
    and "haveClassification (snd (step scrape ev s))"
    and "ev = IntervalFires \<or> \<not> intervalLive s \<Longrightarrow> \<not> intervalLive (snd (step scrape ev s))"
proof -
  note q = quiet_state [OF assms]
  show "fst (step scrape ev s) = []"
  proof (cases ev)
    case IntervalFires
    then show ?thesis using assms(2,3) by (simp add: interval_callback_def)
  next
    case TimeoutFires
    then show ?thesis using q by simp
  next
    case (SummarizeSettles out)
    then show ?thesis using q by (cases out) simp_all
  next
    case (ClassifySettles out)
    then show ?thesis using q by (cases out) simp_all
  qed
  show "haveSummary (snd (step scrape ev s))"
    using assms(2)
    by (cases ev) (simp_all add: interval_fields timeout_fields summarize_fields classify_fields
        del: step.simps)
  show "haveClassification (snd (step scrape ev s))"
    using assms(3)
    by (cases ev) (simp_all add: interval_fields timeout_fields summarize_fields classify_fields
        del: step.simps)
  show "\<not> intervalLive (snd (step scrape ev s))"
    if "ev = IntervalFires \<or> \<not> intervalLive s"
    using that assms(2,3)
    by (cases ev) (auto simp add: interval_fields timeout_fields summarize_fields classify_fields
        simp del: step.simps)
qed

lemma quiet_run:
  "consistent s \<Longrightarrow> haveSummary s \<Longrightarrow> haveClassification s \<Longrightarrow>
   fst (run scrape evs s) = [] \<and>
   (IntervalFires \<in> set evs \<or> \<not> intervalLive s \<longrightarrow> \<not> intervalLive (snd (run scrape evs s)))"
proof (induction evs arbitrary: s)
  case Nil
  then show ?case by simp
next
  case (Cons ev evs)
  let ?s1 = "snd (step scrape ev s)"
  have 1: "consistent ?s1" using Cons.prems(1) by (rule consistent_step)
  have 2: "haveSummary ?s1" "haveClassification ?s1" "fst (step scrape ev s) = []"
    using quiet_step [OF Cons.prems] by simp_all
  have 3: "ev = IntervalFires \<or> \<not> intervalLive s \<Longrightarrow> \<not> intervalLive ?s1"
    using quiet_step(4) [OF Cons.prems] by simp
  from Cons.IH [OF 1 2(1) 2(2)] 2(3) 3 show ?case
    by auto
qed

lemma settle_sets_flags:
  "summarizeInFlight s \<Longrightarrow> haveSummary (snd (step scrape (SummarizeSettles out) s))"
  "summarizeInFlight s \<Longrightarrow> failed out \<Longrightarrow>
     haveClassification (snd (step scrape (SummarizeSettles out) s))"
  "classifyInFlight s \<Longrightarrow> haveClassification (snd (step scrape (ClassifySettles out) s))"
  by (simp_all add: summarize_fields classify_fields del: step.simps)

lemma settled_legs_have_flags:
  "\<not> timeoutPending (snd (run scrape evs start)) \<Longrightarrow>
   \<not> summarizeInFlight (snd (run scrape evs start)) \<Longrightarrow>
   \<not> classifyInFlight (snd (run scrape evs start)) \<Longrightarrow>
   haveSummary (snd (run scrape evs start)) \<and> haveClassification (snd (run scrape evs start))"
  using consistent_run [OF consistent_start, of scrape evs] unfolding consistent_def by blast

text \<open>
  C8: while a leg is unresolved and the interval is registered, each firing of the interval
  sends one progress message per unresolved leg, its text the previous one with a dot
  appended, and keeps that text for the next firing; the interval stays registered as long
  as a leg is unresolved. A leg ends by setting its flag: the summarize request that
  settles sets \<open>haveSummary\<close>, and \<open>haveClassification\<close> too when it failed; the classify
  request that settles sets \<open>haveClassification\<close>, on success as on failure. So in every
  state the flow reaches with the timeout fired and no request in flight both flags are
  set; and once both are set nothing more is sent, whatever happens next, and the first
  firing of the interval clears it.
\<close>

theorem C8_progress_until_both_legs_end:
  "(intervalLive s \<and> (\<not> haveSummary s \<or> \<not> haveClassification s) \<longrightarrow>
      step scrape IntervalFires s =
        ((if haveSummary s then []
          else [summaryMessage (JString (baseSummaryText s @ js ''.''))]) @
         (if haveClassification s then []
          else [classificationMessage (JString (baseClassificationText s @ js ''.''))]),
         s\<lparr>baseSummaryText :=
             (if haveSummary s then baseSummaryText s else baseSummaryText s @ js ''.''),
           baseClassificationText :=
             (if haveClassification s then baseClassificationText s
              else baseClassificationText s @ js ''.'')\<rparr>)) \<and>
   (\<not> (haveSummary (snd (run scrape evs0 start)) \<and>
       haveClassification (snd (run scrape evs0 start))) \<longrightarrow>
      intervalLive (snd (run scrape evs0 start))) \<and>
   (summarizeInFlight s1 \<longrightarrow>
      haveSummary (snd (step scrape (SummarizeSettles out1) s1))) \<and>
   (summarizeInFlight s2 \<and> failed out2 \<longrightarrow>
      haveSummary (snd (step scrape (SummarizeSettles out2) s2)) \<and>
      haveClassification (snd (step scrape (SummarizeSettles out2) s2))) \<and>
   (classifyInFlight s3 \<longrightarrow>
      haveClassification (snd (step scrape (ClassifySettles out3) s3))) \<and>
   (\<not> timeoutPending (snd (run scrape evs start)) \<and>
    \<not> summarizeInFlight (snd (run scrape evs start)) \<and>
    \<not> classifyInFlight (snd (run scrape evs start)) \<longrightarrow>
      haveSummary (snd (run scrape evs start)) \<and>
      haveClassification (snd (run scrape evs start))) \<and>
   (haveSummary (snd (run scrape evs start)) \<and>
    haveClassification (snd (run scrape evs start)) \<longrightarrow>
      fst (run scrape evs' (snd (run scrape evs start))) = [] \<and>
      (IntervalFires \<in> set evs' \<longrightarrow>
         \<not> intervalLive (snd (run scrape evs' (snd (run scrape evs start))))))"
proof -
  have w: "consistent (snd (run scrape es start))" for es
    using consistent_start by (rule consistent_run)
  have a: "intervalLive s \<and> (\<not> haveSummary s \<or> \<not> haveClassification s) \<longrightarrow>
      step scrape IntervalFires s =
        ((if haveSummary s then []
          else [summaryMessage (JString (baseSummaryText s @ js ''.''))]) @
         (if haveClassification s then []
          else [classificationMessage (JString (baseClassificationText s @ js ''.''))]),
         s\<lparr>baseSummaryText :=
             (if haveSummary s then baseSummaryText s else baseSummaryText s @ js ''.''),
           baseClassificationText :=
             (if haveClassification s then baseClassificationText s
              else baseClassificationText s @ js ''.'')\<rparr>)"
    using interval_callback_unresolved [of s] by simp
  have b: "\<not> (haveSummary (snd (run scrape evs0 start)) \<and>
       haveClassification (snd (run scrape evs0 start))) \<longrightarrow>
      intervalLive (snd (run scrape evs0 start))"
    using w [of evs0] unfolding consistent_def by blast
  have c: "haveSummary (snd (run scrape evs start)) \<and>
    haveClassification (snd (run scrape evs start)) \<longrightarrow>
      fst (run scrape evs' (snd (run scrape evs start))) = [] \<and>
      (IntervalFires \<in> set evs' \<longrightarrow>
         \<not> intervalLive (snd (run scrape evs' (snd (run scrape evs start)))))"
    using quiet_run [OF w, of evs scrape evs'] by blast
  have d: "summarizeInFlight s1 \<longrightarrow>
      haveSummary (snd (step scrape (SummarizeSettles out1) s1))"
    using settle_sets_flags(1) [of s1 scrape out1] by blast
  have e: "summarizeInFlight s2 \<and> failed out2 \<longrightarrow>
      haveSummary (snd (step scrape (SummarizeSettles out2) s2)) \<and>
      haveClassification (snd (step scrape (SummarizeSettles out2) s2))"
    using settle_sets_flags(1) [of s2 scrape out2] settle_sets_flags(2) [of s2 out2 scrape]
    by blast
  have f: "classifyInFlight s3 \<longrightarrow>
      haveClassification (snd (step scrape (ClassifySettles out3) s3))"
    using settle_sets_flags(3) [of s3 scrape out3] by blast
  have g: "\<not> timeoutPending (snd (run scrape evs start)) \<and>
    \<not> summarizeInFlight (snd (run scrape evs start)) \<and>
    \<not> classifyInFlight (snd (run scrape evs start)) \<longrightarrow>
      haveSummary (snd (run scrape evs start)) \<and>
      haveClassification (snd (run scrape evs start))"
    using settled_legs_have_flags [of scrape evs] by blast
  from a b c d e f g show ?thesis by blast
qed

text \<open>
  From the start both legs are unresolved and a firing of the interval sends both progress
  texts with a fourth dot. A summarize request that resolves with status 200 sets
  \<open>haveSummary\<close>, one that rejects sets both flags, and the classify request that resolves
  with status 200 sets \<open>haveClassification\<close>. After the timeout, the summary and the
  classification, all with status 200, nothing is pending, both flags are set, two more
  firings send nothing and the interval is cleared.
\<close>

lemma js_append: "js a @ js b = js (a @ b)"
  by (simp add: js_def)

theorem C8_witness:
  "intervalLive start \<and> \<not> haveSummary start \<and>
   step paragraph_page IntervalFires start =
     ([summaryMessage (JString (js ''Summarising ....'')),
       classificationMessage (JString (js ''Classifying ....''))],
      start\<lparr>baseSummaryText := js ''Summarising ....'',
        baseClassificationText := js ''Classifying ....''\<rparr>) \<and>
   \<not> haveSummary (snd (run paragraph_page [] start)) \<and>
   intervalLive (snd (run paragraph_page [] start)) \<and>
   summarizeInFlight (snd (step paragraph_page TimeoutFires start)) \<and>
   haveSummary (snd (step paragraph_page (SummarizeSettles (Resolves 200 object_body))
     (snd (step paragraph_page TimeoutFires start)))) \<and>
   failed Rejects \<and>
   haveClassification (snd (step paragraph_page (SummarizeSettles Rejects)
     (snd (step paragraph_page TimeoutFires start)))) \<and>
   classifyInFlight (snd (step paragraph_page (SummarizeSettles (Resolves 200 object_body))
     (snd (step paragraph_page TimeoutFires start)))) \<and>
   haveClassification (snd (step paragraph_page (ClassifySettles (Resolves 200 object_body))
     (snd (step paragraph_page (SummarizeSettles (Resolves 200 object_body))
       (snd (step paragraph_page TimeoutFires start)))))) \<and>
   \<not> timeoutPending (snd (run paragraph_page
       [TimeoutFires, SummarizeSettles (Resolves 200 object_body),
        ClassifySettles (Resolves 200 object_body)] start)) \<and>
   \<not> summarizeInFlight (snd (run paragraph_page
       [TimeoutFires, SummarizeSettles (Resolves 200 object_body),
        ClassifySettles (Resolves 200 object_body)] start)) \<and>
   \<not> classifyInFlight (snd (run paragraph_page
       [TimeoutFires, SummarizeSettles (Resolves 200 object_body),
        ClassifySettles (Resolves 200 object_body)] start)) \<and>
   haveSummary (snd (run paragraph_page
       [TimeoutFires, SummarizeSettles (Resolves 200 object_body),
        ClassifySettles (Resolves 200 object_body)] start)) \<and>
   haveClassification (snd (run paragraph_page
       [TimeoutFires, SummarizeSettles (Resolves 200 object_body),
        ClassifySettles (Resolves 200 object_body)] start)) \<and>
   fst (run paragraph_page [IntervalFires, IntervalFires]
     (snd (run paragraph_page
       [TimeoutFires, SummarizeSettles (Resolves 200 object_body),
        ClassifySettles (Resolves 200 object_body)] start))) = [] \<and>
   \<not> intervalLive (snd (run paragraph_page [IntervalFires, IntervalFires]
     (snd (run paragraph_page
       [TimeoutFires, SummarizeSettles (Resolves 200 object_body),
        ClassifySettles (Resolves 200 object_body)] start))))"
proof -
  let ?evs = "[TimeoutFires, SummarizeSettles (Resolves 200 object_body),
        ClassifySettles (Resolves 200 object_body)]"
  let ?s1 = "snd (step paragraph_page TimeoutFires start)"
  let ?s2 = "snd (step paragraph_page (SummarizeSettles (Resolves 200 object_body)) ?s1)"
  have h1: "intervalLive start" "\<not> haveSummary start" "\<not> haveClassification start"
    "baseSummaryText start @ js ''.'' = js ''Summarising ....''"
    "baseClassificationText start @ js ''.'' = js ''Classifying ....''"
    by (simp_all add: start_def js_append)
  have h2: "summarizeInFlight ?s1"
    by (simp add: timeout_fields start_def del: step.simps)
  have h3: "classifyInFlight ?s2"
    by (simp add: summarize_fields timeout_fields start_def del: step.simps)
  have h4: "\<not> timeoutPending (snd (run paragraph_page ?evs start))"
    "\<not> summarizeInFlight (snd (run paragraph_page ?evs start))"
    "\<not> classifyInFlight (snd (run paragraph_page ?evs start))"
    by (simp_all add: classify_fields summarize_fields timeout_fields start_def del: step.simps)
  have h5: "IntervalFires \<in> set [IntervalFires, IntervalFires]" "failed Rejects" by simp_all
  have h6: "run paragraph_page [] start = ([], start)" by simp
  show ?thesis
    using h1 h2 h3 h4 h5
      C8_progress_until_both_legs_end [of start paragraph_page "[]"
        ?s1 "Resolves 200 object_body" ?s1 Rejects ?s2 "Resolves 200 object_body"
        ?evs "[IntervalFires, IntervalFires]"]
    unfolding h6
    by (simp add: classify_fields summarize_fields timeout_fields del: step.simps)
qed





end
